theory Spec2Isabelle
  imports Main
begin

section \<open>JavaScript values\<close>

text \<open>
  Both source files handle values of type \<^verbatim>\<open>any\<close> / \<^verbatim>\<open>unknown\<close>: response bodies,
  caught errors, the injected wallet object. They are modelled by one datatype of
  JavaScript values. Numbers are integers (the program only compares against the
  literals 429, 400 and 4902); an object is the list of its own properties.
\<close>

datatype jsval =
    JUndefined
  | JNull
  | JBool bool
  | JNum int
  | JStr string
  | JArr "jsval list"
  | JObj "(string \<times> jsval) list"

text \<open>The value thrown by the runtime when a property of \<^verbatim>\<open>undefined\<close> or \<^verbatim>\<open>null\<close> is read.\<close>

definition TypeError :: jsval where
  "TypeError = JObj [(''name'', JStr ''TypeError'')]"

fun nullish :: "jsval \<Rightarrow> bool" where
  "nullish JUndefined = True"
| "nullish JNull = True"
| "nullish _ = False"

text \<open>JavaScript truthiness, as used by \<^verbatim>\<open>!walletObject\<close>.\<close>

fun truthy :: "jsval \<Rightarrow> bool" where
  "truthy JUndefined = False"
| "truthy JNull = False"
| "truthy (JBool b) = b"
| "truthy (JNum n) = (n \<noteq> 0)"
| "truthy (JStr s) = (s \<noteq> [])"
| "truthy (JArr _) = True"
| "truthy (JObj _) = True"

text \<open>
  Property read \<^verbatim>\<open>v.k\<close>. A computation that may throw returns \<open>jsval + 'a\<close>, with
  \<open>Inl\<close> the thrown value. Reading a property of \<^verbatim>\<open>undefined\<close> or \<^verbatim>\<open>null\<close> throws a
  TypeError; a missing property reads as \<^verbatim>\<open>undefined\<close>. The names the program reads
  (\<^verbatim>\<open>response\<close>, \<^verbatim>\<open>status\<close>, \<^verbatim>\<open>result\<close>, \<^verbatim>\<open>error\<close>, \<^verbatim>\<open>code\<close>) are not defined on the
  prototypes of primitives or arrays, so they read as \<^verbatim>\<open>undefined\<close> there.
\<close>

fun get_prop :: "jsval \<Rightarrow> string \<Rightarrow> jsval + jsval" where
  "get_prop JUndefined k = Inl TypeError"
| "get_prop JNull k = Inl TypeError"
| "get_prop (JObj fs) k = Inr (case map_of fs k of Some v \<Rightarrow> v | None \<Rightarrow> JUndefined)"
| "get_prop _ k = Inr JUndefined"

section \<open>The contract scanner service (contractScanner.ts)\<close>

subsection \<open>Configuration, requests and the transport\<close>

text \<open>
  The module \<^verbatim>\<open>../utils/constants\<close> is not part of the sources at hand; the three
  constants the service reads are taken as parameters.
\<close>

record constants =
  GET_CONTRACT_ENDPOINT :: string
  CONTRACT_CALL_ENDPOINT :: string
  RETRY_DELAY_MS :: nat

text \<open>
  The fields of \<^verbatim>\<open>ContractScannerService\<close>. The two Axios clients are identified by a
  tag; what they answer is given by the transport below.
\<close>

datatype client = MirrorNodeRestClient | MirrorNodeWeb3Client

record service =
  scanContractLimit :: nat

record url =
  path :: string
  query :: "(string \<times> jsval) list"

datatype request =
    Get client url
  | Post client string jsval

text \<open>
  An Axios call either resolves with a response, of which the service reads only
  \<^verbatim>\<open>response.data\<close>, or rejects with an error value.
\<close>

datatype axios_outcome = Resolves jsval | Rejects jsval

text \<open>
  The shape of an \<^verbatim>\<open>AxiosError\<close>: with a \<^verbatim>\<open>response.status\<close> when the server answered,
  without a \<^verbatim>\<open>response\<close> on a network error.
\<close>

definition axiosError :: "nat option \<Rightarrow> jsval" where
  "axiosError st =
     JObj [(''name'', JStr ''AxiosError''),
           (''response'', case st of None \<Rightarrow> JUndefined
                          | Some n \<Rightarrow> JObj [(''status'', JNum (int n))])]"

text \<open>
  Everything observable that the service does, in order: requests sent, lines written
  to the console, and waits.
\<close>

datatype event =
    Request request
  | ConsoleLogFetching url
  | ConsoleLogRateLimit nat
  | ConsoleError jsval
  | Wait nat

text \<open>
  The state threaded through the service: the number of requests issued so far and
  the trace of events. The transport (the mirror node seen through Axios) answers the
  \<open>n\<close>-th request issued; it may answer the same request differently at different
  times.
\<close>

record state =
  clock :: nat
  trace :: "event list"

type_synonym server = "nat \<Rightarrow> request \<Rightarrow> axios_outcome"

type_synonym outcome = "jsval + jsval"

definition emit :: "event \<Rightarrow> state \<Rightarrow> state" where
  "emit e s = s\<lparr>trace := trace s @ [e]\<rparr>"

definition axios_request :: "server \<Rightarrow> request \<Rightarrow> state \<Rightarrow> axios_outcome \<times> state" where
  "axios_request srv rq s = (srv (clock s) rq, (emit (Request rq) s)\<lparr>clock := Suc (clock s)\<rparr>)"

text \<open>
  Modelled from the spec: \<^verbatim>\<open>Helper.wait\<close> is not part of the sources at hand. The spec
  says the client waits a fixed configured delay before re-issuing the request; the
  wait is recorded in the trace and then completes.
\<close>

definition helper_wait :: "nat \<Rightarrow> state \<Rightarrow> state" where
  "helper_wait ms s = emit (Wait ms) s"

text \<open>
  Modelled from the spec: \<^verbatim>\<open>Helper.buildUrl\<close> is not part of the sources at hand. The
  spec says it builds the list URL from a fixed page-size bound and the given cursor
  (omitted when none): a GET with query parameters \<^verbatim>\<open>limit\<close> (the fixed scan batch
  size) and \<^verbatim>\<open>next\<close> (the cursor, omitted on the first call). The URL is kept
  structured, as a path and its query parameters.
\<close>

definition buildUrl :: "constants \<Rightarrow> string option \<Rightarrow> nat \<Rightarrow> url" where
  "buildUrl K next lim =
     \<lparr>path = GET_CONTRACT_ENDPOINT K,
      query = (''limit'', JNum (int lim)) #
              (case next of None \<Rightarrow> [] | Some c \<Rightarrow> [(''next'', JStr c)])\<rparr>"

subsection \<open>The shared error handler\<close>

text \<open>\<^verbatim>\<open>(error as AxiosError).response?.status\<close>\<close>

definition response_status :: "jsval \<Rightarrow> jsval + jsval" where
  "response_status error =
     (case get_prop error ''response'' of
        Inl t \<Rightarrow> Inl t
      | Inr r \<Rightarrow> if nullish r then Inr JUndefined else get_prop r ''status'')"

text \<open>
  \<^verbatim>\<open>handleAxiosError(error, retryMethod, param)\<close>. A method value is its \<^verbatim>\<open>name\<close>
  together with what calling it does; \<^verbatim>\<open>this.contractCallRequest.name\<close> is the string
  \<^verbatim>\<open>contractCallRequest\<close>.
\<close>

definition handleAxiosError ::
  "constants \<Rightarrow> jsval \<Rightarrow> string \<Rightarrow> ('p \<Rightarrow> state \<Rightarrow> (outcome \<times> state) option) \<Rightarrow> 'p \<Rightarrow> state
     \<Rightarrow> (outcome \<times> state) option" where
  "handleAxiosError K error retryName retryMethod param s =
     (case response_status error of
        Inl t \<Rightarrow> Some (Inl t, s)
      | Inr status \<Rightarrow>
          let isRateLimitError = (status = JNum 429);
              isBadRequestError = (status = JNum 400)
          in if isRateLimitError then
               retryMethod param
                 (helper_wait (RETRY_DELAY_MS K) (emit (ConsoleLogRateLimit (RETRY_DELAY_MS K)) s))
             else if \<not> isBadRequestError \<and> retryName \<noteq> ''contractCallRequest'' then
               Some (Inr JNull, emit (ConsoleError error) s)
             else
               Some (Inr JNull, s))"

lemma handleAxiosError_mono [partial_function_mono]:
  assumes "\<And>p s. mono_option (\<lambda>f. R f p s)"
  shows "mono_option (\<lambda>f. handleAxiosError K error retryName (R f) param s)"
proof (cases "response_status error")
  case (Inl t)
  then show ?thesis
    by (simp add: handleAxiosError_def option.const_mono)
next
  case (Inr status)
  then show ?thesis
    unfolding handleAxiosError_def Let_def
    by (auto intro!: partial_function_mono assms)
qed

subsection \<open>The three operations\<close>

partial_function (option) fetchContracts ::
  "constants \<Rightarrow> service \<Rightarrow> server \<Rightarrow> string option \<Rightarrow> state \<Rightarrow> (outcome \<times> state) option" where
  "fetchContracts K svc srv next s =
     (let getAllContractPath = buildUrl K next (scanContractLimit svc);
          s1 = emit (ConsoleLogFetching getAllContractPath) s;
          (response, s2) = axios_request srv (Get MirrorNodeRestClient getAllContractPath) s1
      in case response of
           Resolves data \<Rightarrow> Some (Inr data, s2)
         | Rejects error \<Rightarrow>
             handleAxiosError K error ''fetchContracts'' (fetchContracts K svc srv) next s2)"

partial_function (option) fetchContractObject ::
  "constants \<Rightarrow> service \<Rightarrow> server \<Rightarrow> string \<Rightarrow> state \<Rightarrow> (outcome \<times> state) option" where
  "fetchContractObject K svc srv contractId s =
     (let (response, s1) =
            axios_request srv
              (Get MirrorNodeRestClient
                 \<lparr>path = GET_CONTRACT_ENDPOINT K @ ''/'' @ contractId, query = []\<rparr>) s
      in case response of
           Resolves data \<Rightarrow> Some (Inr data, s1)
         | Rejects error \<Rightarrow>
             handleAxiosError K error ''fetchContractObject''
               (fetchContractObject K svc srv) contractId s1)"

partial_function (option) contractCallRequest ::
  "constants \<Rightarrow> service \<Rightarrow> server \<Rightarrow> jsval \<Rightarrow> state \<Rightarrow> (outcome \<times> state) option" where
  "contractCallRequest K svc srv callData s =
     (let (response, s1) =
            axios_request srv (Post MirrorNodeWeb3Client (CONTRACT_CALL_ENDPOINT K) callData) s
      in case (case response of
                 Resolves data \<Rightarrow> get_prop data ''result''
               | Rejects error \<Rightarrow> Inl error) of
           Inr result \<Rightarrow> Some (Inr result, s1)
         | Inl error \<Rightarrow>
             handleAxiosError K error ''contractCallRequest''
               (contractCallRequest K svc srv) callData s1)"

section \<open>The wallet API (api/wallet/index.ts)\<close>

text \<open>
  The global \<^verbatim>\<open>window\<close> is either not defined (\<open>None\<close>) or an object, given by its
  properties.
\<close>

type_synonym window = "(string \<times> jsval) list option"

text \<open>
  An \<^verbatim>\<open>ethers.BrowserProvider\<close> is used through \<^verbatim>\<open>send(method, params)\<close> only; the
  promise it returns resolves with a value or rejects with an error value. Every
  operation below sends each method at most once, so a provider is given by what it
  answers to each method.
\<close>

datatype send_outcome = SendResolves jsval | SendRejects jsval

type_synonym provider = "string \<Rightarrow> jsval list \<Rightarrow> send_outcome"

text \<open>
  \<^verbatim>\<open>IWalletResult\<close>: every object literal the module returns has exactly one of these
  properties. \<open>Err JNull\<close> is \<^verbatim>\<open>{ err: null }\<close>.
\<close>

datatype IWalletResult =
    Err jsval
  | WalletProvider provider
  | Balance jsval
  | CurrentChainId jsval
  | Accounts jsval

datatype wallet_event =
    NewBrowserProvider jsval
  | Send string "jsval list"
  | ConsoleErr "jsval list"

text \<open>
  \<^verbatim>\<open>HEDERA_NETWORKS.testnet\<close> comes from a module that is not part of the sources at
  hand; the five fields read are taken as parameters.
\<close>

record network =
  chainIdHex :: jsval
  chainName :: jsval
  nativeCurrency :: jsval
  rpcUrls :: jsval
  blockExplorerUrls :: jsval

definition getWalletObject :: "window \<Rightarrow> jsval" where
  "getWalletObject window =
     (case window of
        Some w \<Rightarrow> (case map_of w ''ethereum'' of Some ethereum \<Rightarrow> ethereum | None \<Rightarrow> JUndefined)
      | None \<Rightarrow> JUndefined)"

text \<open>
  The constructor \<^verbatim>\<open>new ethers.BrowserProvider(walletObject)\<close> belongs to the ethers
  library; it is a parameter, and it may throw.
\<close>

definition getWalletProvider ::
  "(jsval \<Rightarrow> jsval + provider) \<Rightarrow> window \<Rightarrow> wallet_event list
     \<Rightarrow> (jsval + IWalletResult) \<times> wallet_event list" where
  "getWalletProvider BrowserProvider window tr =
     (let walletObject = getWalletObject window
      in if \<not> truthy walletObject then (Inr (Err (JStr ''!HEDERA'')), tr)
         else case BrowserProvider walletObject of
                Inl t \<Rightarrow> (Inl t, tr @ [NewBrowserProvider walletObject])
              | Inr walletProvider \<Rightarrow>
                  (Inr (WalletProvider walletProvider), tr @ [NewBrowserProvider walletObject]))"

definition getBalance ::
  "provider \<Rightarrow> string \<Rightarrow> wallet_event list \<Rightarrow> (jsval + IWalletResult) \<times> wallet_event list" where
  "getBalance walletProvider account tr =
     (let tr1 = tr @ [Send ''eth_getBalance'' [JStr account]]
      in case walletProvider ''eth_getBalance'' [JStr account] of
           SendResolves balance \<Rightarrow> (Inr (Balance balance), tr1)
         | SendRejects err \<Rightarrow> (Inr (Err err), tr1 @ [ConsoleErr [err]]))"

definition getCurrentChainId ::
  "provider \<Rightarrow> wallet_event list \<Rightarrow> (jsval + IWalletResult) \<times> wallet_event list" where
  "getCurrentChainId walletProvider tr =
     (let tr1 = tr @ [Send ''eth_chainId'' []]
      in case walletProvider ''eth_chainId'' [] of
           SendResolves currentChainId \<Rightarrow> (Inr (CurrentChainId currentChainId), tr1)
         | SendRejects err \<Rightarrow> (Inr (Err err), tr1))"

definition requestAccount ::
  "provider \<Rightarrow> wallet_event list \<Rightarrow> (jsval + IWalletResult) \<times> wallet_event list" where
  "requestAccount walletProvider tr =
     (let tr1 = tr @ [Send ''eth_requestAccounts'' []]
      in case walletProvider ''eth_requestAccounts'' [] of
           SendResolves accounts \<Rightarrow> (Inr (Accounts accounts), tr1)
         | SendRejects err \<Rightarrow> (Inr (Err err), tr1))"

definition addEthereumChain ::
  "network \<Rightarrow> provider \<Rightarrow> wallet_event list \<Rightarrow> (jsval + IWalletResult) \<times> wallet_event list" where
  "addEthereumChain testnet walletProvider tr =
     (let hederaTestnetParams =
            JObj [(''chainId'', chainIdHex testnet),
                  (''chainName'', chainName testnet),
                  (''nativeCurrency'', nativeCurrency testnet),
                  (''rpcUrls'', JArr [rpcUrls testnet]),
                  (''blockExplorerUrls'', JArr [blockExplorerUrls testnet])];
          tr1 = tr @ [Send ''wallet_addEthereumChain'' [hederaTestnetParams]]
      in case walletProvider ''wallet_addEthereumChain'' [hederaTestnetParams] of
           SendResolves _ \<Rightarrow> (Inr (Err JNull), tr1)
         | SendRejects err \<Rightarrow>
             (Inr (Err err),
              tr1 @ [ConsoleErr [JStr ''Error adding Hedera Testnet chain:'', err]]))"

text \<open>
  In \<^verbatim>\<open>switchToHederaTestnet\<close> the test \<^verbatim>\<open>error.error.code === 4902\<close> is evaluated
  inside the \<^verbatim>\<open>catch\<close> block, so a TypeError raised by it is not caught.
\<close>

definition switchToHederaTestnet ::
  "network \<Rightarrow> provider \<Rightarrow> wallet_event list \<Rightarrow> (jsval + IWalletResult) \<times> wallet_event list" where
  "switchToHederaTestnet testnet walletProvider tr =
     (let params = [JObj [(''chainId'', JStr ''0x128'')]];
          tr1 = tr @ [Send ''wallet_switchEthereumChain'' params]
      in case walletProvider ''wallet_switchEthereumChain'' params of
           SendResolves _ \<Rightarrow> (Inr (Err JNull), tr1)
         | SendRejects error \<Rightarrow>
             (case (case get_prop error ''error'' of
                      Inl t \<Rightarrow> Inl t
                    | Inr inner \<Rightarrow> get_prop inner ''code'') of
                Inl t \<Rightarrow> (Inl t, tr1)
              | Inr code \<Rightarrow>
                  if code = JNum 4902 then
                    (case addEthereumChain testnet walletProvider tr1 of
                       (Inr result, tr2) \<Rightarrow> (Inr result, tr2)
                     | (Inl addError, tr2) \<Rightarrow>
                         (Inr (Err addError),
                          tr2 @ [ConsoleErr [JStr ''Error adding Hedera Testnet chain:'', addError]]))
                  else
                    (Inr (Err error),
                     tr1 @ [ConsoleErr [JStr ''Error switching to Hedera Testnet chain:'', error]])))"

section \<open>Vocabulary for the properties\<close>

text \<open>
  An Axios outcome that the error handler classifies as a rate limit: a rejection whose
  \<^verbatim>\<open>response?.status\<close> is 429.
\<close>

definition is429 :: "axios_outcome \<Rightarrow> bool" where
  "is429 r = (case r of Resolves d \<Rightarrow> False | Rejects e \<Rightarrow> response_status e = Inr (JNum 429))"

text \<open>
  The three operations under one name, so that a property can be stated for each of
  them: \<open>invoke\<close> calls the operation, \<open>request_of\<close> is the request its source text
  builds from the parameter, \<open>attempt\<close> the events of one attempt up to and including
  the request.
\<close>

datatype operation =
    FetchContracts "string option"
  | FetchContractObject string
  | ContractCallRequest jsval

fun invoke :: "constants \<Rightarrow> service \<Rightarrow> server \<Rightarrow> operation \<Rightarrow> state \<Rightarrow> (outcome \<times> state) option" where
  "invoke K svc srv (FetchContracts next) s = fetchContracts K svc srv next s"
| "invoke K svc srv (FetchContractObject contractId) s = fetchContractObject K svc srv contractId s"
| "invoke K svc srv (ContractCallRequest callData) s = contractCallRequest K svc srv callData s"

fun request_of :: "constants \<Rightarrow> service \<Rightarrow> operation \<Rightarrow> request" where
  "request_of K svc (FetchContracts next) =
     Get MirrorNodeRestClient (buildUrl K next (scanContractLimit svc))"
| "request_of K svc (FetchContractObject contractId) =
     Get MirrorNodeRestClient \<lparr>path = GET_CONTRACT_ENDPOINT K @ ''/'' @ contractId, query = []\<rparr>"
| "request_of K svc (ContractCallRequest callData) =
     Post MirrorNodeWeb3Client (CONTRACT_CALL_ENDPOINT K) callData"

fun attempt :: "constants \<Rightarrow> service \<Rightarrow> operation \<Rightarrow> event list" where
  "attempt K svc (FetchContracts next) =
     [ConsoleLogFetching (buildUrl K next (scanContractLimit svc)),
      Request (request_of K svc (FetchContracts next))]"
| "attempt K svc op = [Request (request_of K svc op)]"

text \<open>
  The state after one attempt that was answered by a rate limit (the request, the console
  line, the wait), and after one attempt that was answered otherwise.
\<close>

definition rateLimited :: "constants \<Rightarrow> service \<Rightarrow> operation \<Rightarrow> state \<Rightarrow> state" where
  "rateLimited K svc op s =
     s\<lparr>clock := Suc (clock s),
       trace := trace s @ attempt K svc op @
                [ConsoleLogRateLimit (RETRY_DELAY_MS K), Wait (RETRY_DELAY_MS K)]\<rparr>"

definition attempted :: "constants \<Rightarrow> service \<Rightarrow> operation \<Rightarrow> state \<Rightarrow> state" where
  "attempted K svc op s = s\<lparr>clock := Suc (clock s), trace := trace s @ attempt K svc op\<rparr>"

text \<open>The requests among a list of events, in order.\<close>

fun requests_in :: "event list \<Rightarrow> request list" where
  "requests_in [] = []"
| "requests_in (Request rq # es) = rq # requests_in es"
| "requests_in (e # es) = requests_in es"

text \<open>Concrete inputs, used to run the model.\<close>

definition K0 :: constants where
  "K0 = \<lparr>GET_CONTRACT_ENDPOINT = ''/api/v1/contracts'',
         CONTRACT_CALL_ENDPOINT = ''/api/v1/contracts/call'',
         RETRY_DELAY_MS = 10000\<rparr>"

definition svc0 :: service where
  "svc0 = \<lparr>scanContractLimit = 100\<rparr>"

definition s0 :: state where
  "s0 = \<lparr>clock = 0, trace = []\<rparr>"

text \<open>
  A transport that always gives the same answer, and one that answers 429 to the first
  \<open>k\<close> requests and then gives a fixed answer.
\<close>

definition always :: "axios_outcome \<Rightarrow> server" where
  "always r n rq = r"

definition rateLimitedThen :: "nat \<Rightarrow> axios_outcome \<Rightarrow> server" where
  "rateLimitedThen k r n rq = (if n < k then Rejects (axiosError (Some 429)) else r)"

text \<open>
  A provider whose \<^verbatim>\<open>send\<close> rejects every request with the same error value, and a
  provider constructor that throws.
\<close>

definition rejecting :: "jsval \<Rightarrow> provider" where
  "rejecting e method params = SendRejects e"

definition throwingConstructor :: "jsval \<Rightarrow> jsval + provider" where
  "throwingConstructor walletObject = Inl TypeError"

section \<open>Properties of the contract scanner service\<close>

lemmas scanner_defs =
  is429_def rateLimited_def attempted_def axios_request_def emit_def helper_wait_def
  handleAxiosError_def Let_def

lemma get_prop_not_nullish: "\<not> nullish v \<Longrightarrow> \<exists>x. get_prop v k = Inr x"
  by (cases v) simp_all

lemma response_status_not_nullish:
  assumes "\<not> nullish e"
  shows "\<exists>st. response_status e = Inr st"
proof -
  from assms obtain r where r: "get_prop e ''response'' = Inr r"
    using get_prop_not_nullish by blast
  show ?thesis
  proof (cases "nullish r")
    case True
    with r show ?thesis by (simp add: response_status_def)
  next
    case False
    then obtain st where "get_prop r ''status'' = Inr st"
      using get_prop_not_nullish by blast
    with r False show ?thesis by (simp add: response_status_def)
  qed
qed

lemma response_status_TypeError: "response_status TypeError = Inr JUndefined"
  by (simp add: response_status_def TypeError_def)

lemma response_status_axiosError:
  "response_status (axiosError st) = Inr (case st of None \<Rightarrow> JUndefined | Some n \<Rightarrow> JNum (int n))"
  by (simp add: response_status_def axiosError_def split: option.splits)

subsection \<open>One attempt\<close>

lemma invoke_429:
  assumes "is429 (srv (clock s) (request_of K svc op))"
  shows "invoke K svc srv op s = invoke K svc srv op (rateLimited K svc op s)"
proof (cases op)
  case (FetchContracts nxt)
  show ?thesis
    using assms unfolding FetchContracts invoke.simps request_of.simps attempt.simps
    by (subst fetchContracts.simps) (simp add: scanner_defs split: axios_outcome.splits)
next
  case (FetchContractObject contractId)
  show ?thesis
    using assms unfolding FetchContractObject invoke.simps request_of.simps attempt.simps
    by (subst fetchContractObject.simps) (simp add: scanner_defs split: axios_outcome.splits)
next
  case (ContractCallRequest callData)
  show ?thesis
    using assms unfolding ContractCallRequest invoke.simps request_of.simps attempt.simps
    by (subst contractCallRequest.simps) (simp add: scanner_defs split: axios_outcome.splits)
qed

lemma invoke_resolves:
  assumes "srv (clock s) (request_of K svc op) = Resolves d"
  shows "invoke K svc srv op s =
         Some (case op of
                 ContractCallRequest callData \<Rightarrow>
                   (case get_prop d ''result'' of Inr result \<Rightarrow> Inr result | Inl t \<Rightarrow> Inr JNull)
               | _ \<Rightarrow> Inr d,
               attempted K svc op s)"
proof (cases op)
  case (FetchContracts nxt)
  show ?thesis
    using assms unfolding FetchContracts invoke.simps request_of.simps attempt.simps
    by (subst fetchContracts.simps) (simp add: scanner_defs)
next
  case (FetchContractObject contractId)
  show ?thesis
    using assms unfolding FetchContractObject invoke.simps request_of.simps attempt.simps
    by (subst fetchContractObject.simps) (simp add: scanner_defs)
next
  case (ContractCallRequest callData)
  show ?thesis
    using assms unfolding ContractCallRequest invoke.simps request_of.simps attempt.simps
    by (subst contractCallRequest.simps) (cases d; simp add: scanner_defs response_status_TypeError)
qed

lemma invoke_rejects:
  assumes "srv (clock s) (request_of K svc op) = Rejects e"
    and "response_status e = Inr st" and "st \<noteq> JNum 429"
  shows "invoke K svc srv op s =
         Some (Inr JNull,
               if st \<noteq> JNum 400 \<and> (\<forall>callData. op \<noteq> ContractCallRequest callData)
               then emit (ConsoleError e) (attempted K svc op s)
               else attempted K svc op s)"
proof (cases op)
  case (FetchContracts nxt)
  show ?thesis
    using assms unfolding FetchContracts invoke.simps request_of.simps attempt.simps
    by (subst fetchContracts.simps) (simp add: scanner_defs)
next
  case (FetchContractObject contractId)
  show ?thesis
    using assms unfolding FetchContractObject invoke.simps request_of.simps attempt.simps
    by (subst fetchContractObject.simps) (simp add: scanner_defs)
next
  case (ContractCallRequest callData)
  show ?thesis
    using assms unfolding ContractCallRequest invoke.simps request_of.simps attempt.simps
    by (subst contractCallRequest.simps) (simp add: scanner_defs)
qed

lemma invoke_settles:
  assumes "\<not> is429 (srv (clock s) (request_of K svc op))"
    and "\<And>e. srv (clock s) (request_of K svc op) = Rejects e \<Longrightarrow> \<not> nullish e"
  shows "\<exists>v s'. invoke K svc srv op s = Some (Inr v, s')"
proof (cases "srv (clock s) (request_of K svc op)")
  case (Resolves d)
  then show ?thesis
    by (simp add: invoke_resolves split: operation.splits sum.splits)
next
  case (Rejects e)
  with assms(2) obtain st where st: "response_status e = Inr st"
    using response_status_not_nullish by blast
  with assms(1) Rejects have "st \<noteq> JNum 429" by (simp add: is429_def)
  with Rejects st show ?thesis by (simp add: invoke_rejects)
qed

subsection \<open>Any number of rate-limited attempts\<close>

lemma clock_rateLimited_funpow: "clock ((rateLimited K svc op ^^ n) s) = clock s + n"
  by (induction n) (simp_all add: rateLimited_def)

lemma invoke_retries:
  assumes "\<forall>i<n. is429 (srv (clock s + i) (request_of K svc op))"
  shows "invoke K svc srv op s = invoke K svc srv op ((rateLimited K svc op ^^ n) s)"
  using assms
proof (induction n)
  case 0
  show ?case by simp
next
  case (Suc n)
  then have "invoke K svc srv op s = invoke K svc srv op ((rateLimited K svc op ^^ n) s)"
    by simp
  also have "\<dots> = invoke K svc srv op (rateLimited K svc op ((rateLimited K svc op ^^ n) s))"
    using Suc.prems by (intro invoke_429) (simp add: clock_rateLimited_funpow)
  finally show ?case by simp
qed


lemma fetchContracts_terminates_D:
  assumes "fetchContracts K svc srv p s = Some y"
  shows "\<exists>n. (\<forall>i<n. is429 (srv (clock s + i) (request_of K svc (FetchContracts p)))) \<and>
             \<not> is429 (srv (clock s + n) (request_of K svc (FetchContracts p)))"
  using assms
proof (induct rule: fetchContracts.raw_induct[rotated 1, consumes 1])
  case (1 f K svc srv p s y)
  let ?rq = "request_of K svc (FetchContracts p)"
  show ?case
  proof (cases "is429 (srv (clock s) ?rq)")
    case False
    then have "(\<forall>i<0. is429 (srv (clock s + i) ?rq)) \<and> \<not> is429 (srv (clock s + 0) ?rq)"
      by simp
    then show ?thesis by blast
  next
    case True
    with 1(2) have "f K svc srv p (rateLimited K svc (FetchContracts p) s) = Some y"
      by (simp add: scanner_defs split: axios_outcome.splits)
    from 1(1)[OF this] obtain n where
      n: "\<forall>i<n. is429 (srv (Suc (clock s) + i) ?rq)" "\<not> is429 (srv (Suc (clock s) + n) ?rq)"
      by (auto simp: rateLimited_def)
    have "\<forall>i<Suc n. is429 (srv (clock s + i) ?rq)"
    proof (intro allI impI)
      fix i assume "i < Suc n"
      then show "is429 (srv (clock s + i) ?rq)"
        using True n(1) by (cases i) simp_all
    qed
    moreover have "\<not> is429 (srv (clock s + Suc n) ?rq)"
      using n(2) by simp
    ultimately show ?thesis by blast
  qed
qed

lemma fetchContractObject_terminates_D:
  assumes "fetchContractObject K svc srv p s = Some y"
  shows "\<exists>n. (\<forall>i<n. is429 (srv (clock s + i) (request_of K svc (FetchContractObject p)))) \<and>
             \<not> is429 (srv (clock s + n) (request_of K svc (FetchContractObject p)))"
  using assms
proof (induct rule: fetchContractObject.raw_induct[rotated 1, consumes 1])
  case (1 f K svc srv p s y)
  let ?rq = "request_of K svc (FetchContractObject p)"
  show ?case
  proof (cases "is429 (srv (clock s) ?rq)")
    case False
    then have "(\<forall>i<0. is429 (srv (clock s + i) ?rq)) \<and> \<not> is429 (srv (clock s + 0) ?rq)"
      by simp
    then show ?thesis by blast
  next
    case True
    with 1(2) have "f K svc srv p (rateLimited K svc (FetchContractObject p) s) = Some y"
      by (simp add: scanner_defs split: axios_outcome.splits)
    from 1(1)[OF this] obtain n where
      n: "\<forall>i<n. is429 (srv (Suc (clock s) + i) ?rq)" "\<not> is429 (srv (Suc (clock s) + n) ?rq)"
      by (auto simp: rateLimited_def)
    have "\<forall>i<Suc n. is429 (srv (clock s + i) ?rq)"
    proof (intro allI impI)
      fix i assume "i < Suc n"
      then show "is429 (srv (clock s + i) ?rq)"
        using True n(1) by (cases i) simp_all
    qed
    moreover have "\<not> is429 (srv (clock s + Suc n) ?rq)"
      using n(2) by simp
    ultimately show ?thesis by blast
  qed
qed

lemma contractCallRequest_terminates_D:
  assumes "contractCallRequest K svc srv p s = Some y"
  shows "\<exists>n. (\<forall>i<n. is429 (srv (clock s + i) (request_of K svc (ContractCallRequest p)))) \<and>
             \<not> is429 (srv (clock s + n) (request_of K svc (ContractCallRequest p)))"
  using assms
proof (induct rule: contractCallRequest.raw_induct[rotated 1, consumes 1])
  case (1 f K svc srv p s y)
  let ?rq = "request_of K svc (ContractCallRequest p)"
  show ?case
  proof (cases "is429 (srv (clock s) ?rq)")
    case False
    then have "(\<forall>i<0. is429 (srv (clock s + i) ?rq)) \<and> \<not> is429 (srv (clock s + 0) ?rq)"
      by simp
    then show ?thesis by blast
  next
    case True
    with 1(2) have "f K svc srv p (rateLimited K svc (ContractCallRequest p) s) = Some y"
      by (simp add: scanner_defs split: axios_outcome.splits)
    from 1(1)[OF this] obtain n where
      n: "\<forall>i<n. is429 (srv (Suc (clock s) + i) ?rq)" "\<not> is429 (srv (Suc (clock s) + n) ?rq)"
      by (auto simp: rateLimited_def)
    have "\<forall>i<Suc n. is429 (srv (clock s + i) ?rq)"
    proof (intro allI impI)
      fix i assume "i < Suc n"
      then show "is429 (srv (clock s + i) ?rq)"
        using True n(1) by (cases i) simp_all
    qed
    moreover have "\<not> is429 (srv (clock s + Suc n) ?rq)"
      using n(2) by simp
    ultimately show ?thesis by blast
  qed
qed

lemma invoke_terminates_D:
  assumes "invoke K svc srv op s = Some y"
  shows "\<exists>n. (\<forall>i<n. is429 (srv (clock s + i) (request_of K svc op))) \<and>
             \<not> is429 (srv (clock s + n) (request_of K svc op))"
  using assms
  by (cases op)
     (simp_all only: invoke.simps fetchContracts_terminates_D fetchContractObject_terminates_D
        contractCallRequest_terminates_D)

lemma invoke_diverges:
  assumes "\<forall>i. is429 (srv (clock s + i) (request_of K svc op))"
  shows "invoke K svc srv op s = None"
proof (cases "invoke K svc srv op s")
  case None
  then show ?thesis .
next
  case (Some y)
  from invoke_terminates_D[OF this] assms show ?thesis by blast
qed


lemma invoke_throws:
  assumes "srv (clock s) (request_of K svc op) = Rejects e"
    and "response_status e = Inl t"
  shows "invoke K svc srv op s = Some (Inl t, attempted K svc op s)"
proof (cases op)
  case (FetchContracts nxt)
  show ?thesis
    using assms unfolding FetchContracts invoke.simps request_of.simps attempt.simps
    by (subst fetchContracts.simps) (simp add: scanner_defs)
next
  case (FetchContractObject contractId)
  show ?thesis
    using assms unfolding FetchContractObject invoke.simps request_of.simps attempt.simps
    by (subst fetchContractObject.simps) (simp add: scanner_defs)
next
  case (ContractCallRequest callData)
  show ?thesis
    using assms unfolding ContractCallRequest invoke.simps request_of.simps attempt.simps
    by (subst contractCallRequest.simps) (simp add: scanner_defs)
qed

lemma requests_in_append: "requests_in (xs @ ys) = requests_in xs @ requests_in ys"
  by (induction xs rule: requests_in.induct) simp_all

lemma requests_in_attempt: "requests_in (attempt K svc op) = [request_of K svc op]"
  by (cases op) simp_all

lemma invoke_first_trace:
  assumes "\<not> is429 (srv (clock s) (request_of K svc op))"
    and "invoke K svc srv op s = Some (r, s')"
  shows "clock s' = Suc (clock s) \<and>
         (\<exists>evs. trace s' = trace s @ evs \<and> requests_in evs = [request_of K svc op])"
proof -
  have "s' = attempted K svc op s \<or> (\<exists>e. s' = emit (ConsoleError e) (attempted K svc op s))"
  proof (cases "srv (clock s) (request_of K svc op)")
    case (Resolves d)
    with assms(2) show ?thesis by (simp add: invoke_resolves)
  next
    case (Rejects e)
    show ?thesis
    proof (cases "response_status e")
      case (Inl t)
      with Rejects assms(2) show ?thesis by (simp add: invoke_throws)
    next
      case (Inr st)
      with assms(1) Rejects have "st \<noteq> JNum 429" by (simp add: is429_def)
      with Rejects Inr assms(2) show ?thesis
        by (auto simp: invoke_rejects split: if_splits)
    qed
  qed
  then show ?thesis
    by (auto simp: attempted_def emit_def requests_in_append requests_in_attempt)
qed

lemma rateLimited_funpow_trace:
  "\<exists>evs. trace ((rateLimited K svc op ^^ n) s) = trace s @ evs \<and>
         requests_in evs = replicate n (request_of K svc op)"
proof (induction n)
  case 0
  show ?case by simp
next
  case (Suc n)
  then obtain evs where
    evs: "trace ((rateLimited K svc op ^^ n) s) = trace s @ evs"
         "requests_in evs = replicate n (request_of K svc op)"
    by blast
  let ?evs = "evs @ attempt K svc op @
              [ConsoleLogRateLimit (RETRY_DELAY_MS K), Wait (RETRY_DELAY_MS K)]"
  have "trace ((rateLimited K svc op ^^ Suc n) s) = trace s @ ?evs"
    using evs(1) by (simp add: rateLimited_def)
  moreover have "requests_in ?evs = replicate (Suc n) (request_of K svc op)"
    using evs(2) by (simp add: requests_in_append requests_in_attempt replicate_append_same)
  ultimately show ?case by blast
qed

subsection \<open>Retries repeat the request\<close>

text \<open>
  Claim C5. For every operation and every parameter value (cursor, contract id or call
  descriptor): whenever a call of the operation returns, the requests it has sent, the
  first one and each retry after a 429, are all the request built from the original
  parameter, one per tick of the clock. No parameter is changed between attempts; the
  cursor reaches \<^verbatim>\<open>Helper.buildUrl\<close> as it was given.
\<close>

theorem retries_reissue_identical_request:
  assumes "invoke K svc srv op s = Some (r, s')"
  shows "clock s < clock s' \<and>
         (\<exists>evs. trace s' = trace s @ evs \<and>
                requests_in evs = replicate (clock s' - clock s) (request_of K svc op))"
proof -
  let ?rq = "request_of K svc op"
  let ?sn = "\<lambda>n. (rateLimited K svc op ^^ n) s"
  from invoke_terminates_D[OF assms] obtain n where
    n: "\<forall>i<n. is429 (srv (clock s + i) ?rq)" "\<not> is429 (srv (clock s + n) ?rq)"
    by blast
  from n(1) have run: "invoke K svc srv op (?sn n) = Some (r, s')"
    using assms invoke_retries by metis
  from n(2) have "\<not> is429 (srv (clock (?sn n)) ?rq)"
    by (simp add: clock_rateLimited_funpow)
  from invoke_first_trace[OF this run] obtain evs2 where
    evs2: "clock s' = Suc (clock s + n)" "trace s' = trace (?sn n) @ evs2" "requests_in evs2 = [?rq]"
    by (auto simp: clock_rateLimited_funpow)
  obtain evs1 where
    evs1: "trace (?sn n) = trace s @ evs1" "requests_in evs1 = replicate n ?rq"
    using rateLimited_funpow_trace by blast
  have "trace s' = trace s @ (evs1 @ evs2)"
    using evs1(1) evs2(2) by simp
  moreover have "requests_in (evs1 @ evs2) = replicate (clock s' - clock s) ?rq"
    using evs1(2) evs2(1,3) by (simp add: requests_in_append replicate_append_same)
  ultimately show ?thesis
    using evs2(1) by auto
qed

text \<open>
  The scenario of the spec: the detail request for contract 0.0.999 is answered 429 once
  and then with a payload.
\<close>

theorem retries_reissue_identical_request_witness:
  "invoke K0 svc0 (rateLimitedThen 1 (Resolves (JStr ''0x6080''))) (FetchContractObject ''0.0.999'') s0 =
     Some (Inr (JStr ''0x6080''),
           \<lparr>clock = 2,
            trace = [Request (request_of K0 svc0 (FetchContractObject ''0.0.999'')),
                     ConsoleLogRateLimit 10000, Wait 10000,
                     Request (request_of K0 svc0 (FetchContractObject ''0.0.999''))]\<rparr>) \<and>
   (\<exists>evs. [Request (request_of K0 svc0 (FetchContractObject ''0.0.999'')),
            ConsoleLogRateLimit 10000, Wait 10000,
            Request (request_of K0 svc0 (FetchContractObject ''0.0.999''))] = trace s0 @ evs \<and>
          requests_in evs = replicate 2 (request_of K0 svc0 (FetchContractObject ''0.0.999'')))"
proof -
  let ?s' = "\<lparr>clock = 2,
              trace = [Request (request_of K0 svc0 (FetchContractObject ''0.0.999'')),
                       ConsoleLogRateLimit 10000, Wait 10000,
                       Request (request_of K0 svc0 (FetchContractObject ''0.0.999''))]\<rparr>"
  have run: "invoke K0 svc0 (rateLimitedThen 1 (Resolves (JStr ''0x6080'')))
               (FetchContractObject ''0.0.999'') s0 = Some (Inr (JStr ''0x6080''), ?s')"
    apply simp
    apply (subst fetchContractObject.simps)
    apply (simp add: scanner_defs rateLimitedThen_def response_status_axiosError s0_def K0_def)
    apply (subst fetchContractObject.simps)
    apply (simp add: scanner_defs rateLimitedThen_def)
    done
  from retries_reissue_identical_request [OF run] run show ?thesis
    by (simp add: s0_def)
qed

subsection \<open>A retry is invisible to the caller\<close>

text \<open>
  Claim C2. For each of the three operations and every parameter: if the transport answers
  the operation's request with a rate limit \<open>n\<close> times and then resolves with \<open>d\<close>, the
  operation returns, and it returns the result it returns when \<open>d\<close> is the first answer.
\<close>

theorem retry_is_transparent:
  assumes "\<forall>i<n. is429 (srv (clock s + i) (request_of K svc op))"
    and "srv (clock s + n) (request_of K svc op) = Resolves d"
    and "srv' (clock s) (request_of K svc op) = Resolves d"
  shows "map_option fst (invoke K svc srv op s) = map_option fst (invoke K svc srv' op s) \<and>
         invoke K svc srv op s \<noteq> None"
proof -
  let ?sn = "(rateLimited K svc op ^^ n) s"
  have "invoke K svc srv op s = invoke K svc srv op ?sn"
    using assms(1) by (rule invoke_retries)
  moreover have "srv (clock ?sn) (request_of K svc op) = Resolves d"
    using assms(2) by (simp add: clock_rateLimited_funpow)
  ultimately show ?thesis
    using assms(3) by (simp add: invoke_resolves)
qed

text \<open>
  A call request answered 429 once and then with \<^verbatim>\<open>{ result: '0x01' }\<close> returns
  \<^verbatim>\<open>'0x01'\<close>, as it does when that response comes first.
\<close>

theorem retry_is_transparent_witness:
  "map_option fst
     (invoke K0 svc0 (rateLimitedThen 1 (Resolves (JObj [(''result'', JStr ''0x01'')])))
        (ContractCallRequest (JObj [(''to'', JStr ''0xabc'')])) s0) =
     Some (Inr (JStr ''0x01'')) \<and>
   map_option fst
     (invoke K0 svc0 (always (Resolves (JObj [(''result'', JStr ''0x01'')])))
        (ContractCallRequest (JObj [(''to'', JStr ''0xabc'')])) s0) =
     Some (Inr (JStr ''0x01''))"
proof -
  let ?d = "JObj [(''result'', JStr ''0x01'')]"
  let ?op = "ContractCallRequest (JObj [(''to'', JStr ''0xabc'')])"
  let ?rq = "request_of K0 svc0 ?op"
  have h1: "\<forall>i<1. is429 (rateLimitedThen 1 (Resolves ?d) (clock s0 + i) ?rq)"
    by (simp add: is429_def rateLimitedThen_def response_status_axiosError s0_def)
  have h2: "rateLimitedThen 1 (Resolves ?d) (clock s0 + 1) ?rq = Resolves ?d"
    by (simp add: rateLimitedThen_def s0_def)
  have h3: "always (Resolves ?d) (clock s0) ?rq = Resolves ?d"
    by (simp add: always_def)
  have immediate: "map_option fst (invoke K0 svc0 (always (Resolves ?d)) ?op s0) =
                   Some (Inr (JStr ''0x01''))"
    by (simp, subst contractCallRequest.simps) (simp add: scanner_defs always_def)
  from retry_is_transparent
         [where n = 1 and s = s0 and K = K0 and svc = svc0 and d = ?d and op = ?op
            and srv = "rateLimitedThen 1 (Resolves ?d)" and srv' = "always (Resolves ?d)",
          OF h1 h2 h3]
       immediate
  show ?thesis
    by simp
qed

subsection \<open>No operation throws\<close>

text \<open>
  A transport that answers 429 for ever: the operation retries for ever and its promise
  never settles. Claim C4 as stated, that the operation resolves for every behaviour of the
  server, fails here.
\<close>

theorem sustained_rate_limit_never_resolves:
  "fetchContractObject K0 svc0 (always (Rejects (axiosError (Some 429)))) ''0.0.999'' s0 = None"
  using invoke_diverges [where s = s0 and srv = "always (Rejects (axiosError (Some 429)))"
      and K = K0 and svc = svc0 and op = "FetchContractObject ''0.0.999''"]
  by (simp add: is429_def always_def response_status_axiosError)

text \<open>
  Claim C4, amended. For every input, and every behaviour of the server that answers the
  operation's request with a rate limit only finitely often and whose failures are error
  objects (as Axios produces for a network error and for any HTTP status), each of the three
  operations resolves to a value or to null; it does not throw.
\<close>

theorem operations_resolve_without_throwing:
  assumes "\<forall>i<n. is429 (srv (clock s + i) (request_of K svc op))"
    and "\<not> is429 (srv (clock s + n) (request_of K svc op))"
    and "\<forall>e. srv (clock s + n) (request_of K svc op) = Rejects e \<longrightarrow> \<not> nullish e"
  shows "\<exists>v s'. invoke K svc srv op s = Some (Inr v, s')"
proof -
  let ?sn = "(rateLimited K svc op ^^ n) s"
  have "invoke K svc srv op s = invoke K svc srv op ?sn"
    using assms(1) by (rule invoke_retries)
  moreover have "\<exists>v s'. invoke K svc srv op ?sn = Some (Inr v, s')"
    using assms(2,3) by (intro invoke_settles) (simp_all add: clock_rateLimited_funpow)
  ultimately show ?thesis by simp
qed

theorem operations_resolve_without_throwing_witness:
  "\<exists>v s'. invoke K0 svc0 (rateLimitedThen 1 (Rejects (axiosError None))) (FetchContracts None) s0 =
           Some (Inr v, s')"
proof -
  let ?srv = "rateLimitedThen 1 (Rejects (axiosError None))"
  let ?rq = "request_of K0 svc0 (FetchContracts None)"
  have h1: "\<forall>i<1. is429 (?srv (clock s0 + i) ?rq)"
    by (simp add: is429_def rateLimitedThen_def response_status_axiosError s0_def)
  have h2: "\<not> is429 (?srv (clock s0 + 1) ?rq)"
    by (simp add: is429_def rateLimitedThen_def response_status_axiosError s0_def)
  have h3: "\<forall>e. ?srv (clock s0 + 1) ?rq = Rejects e \<longrightarrow> \<not> nullish e"
    by (simp add: rateLimitedThen_def axiosError_def s0_def)
  from operations_resolve_without_throwing
         [where n = 1 and s = s0 and K = K0 and svc = svc0 and op = "FetchContracts None"
            and srv = ?srv, OF h1 h2 h3]
  show ?thesis .
qed

subsection \<open>The rate limit is checked first\<close>

text \<open>
  Claim C9. In the shared error handler the rate-limit check comes before every other
  classification. For an error whose \<^verbatim>\<open>response?.status\<close> is 429, whatever the name of
  the retried method (\<^verbatim>\<open>contractCallRequest\<close> included), the handler writes the rate-limit
  line, waits, and returns what the retried method returns on the same parameter; it neither
  returns null silently nor logs and drops the error. So each of the three operations, when
  its request is answered by such an error, continues as a fresh call of itself in the state
  after the wait.
\<close>

theorem rate_limit_takes_precedence:
  assumes "response_status error = Inr (JNum 429)"
  shows "handleAxiosError K error retryName retryMethod param s =
           retryMethod param
             (s\<lparr>trace := trace s @
                  [ConsoleLogRateLimit (RETRY_DELAY_MS K), Wait (RETRY_DELAY_MS K)]\<rparr>) \<and>
         (\<forall>svc srv op s. srv (clock s) (request_of K svc op) = Rejects error \<longrightarrow>
            invoke K svc srv op s = invoke K svc srv op (rateLimited K svc op s))"
proof
  show "handleAxiosError K error retryName retryMethod param s =
          retryMethod param
            (s\<lparr>trace := trace s @
                 [ConsoleLogRateLimit (RETRY_DELAY_MS K), Wait (RETRY_DELAY_MS K)]\<rparr>)"
    using assms by (simp add: handleAxiosError_def helper_wait_def emit_def)
  show "\<forall>svc srv op s. srv (clock s) (request_of K svc op) = Rejects error \<longrightarrow>
            invoke K svc srv op s = invoke K svc srv op (rateLimited K svc op s)"
    using assms by (auto intro!: invoke_429 simp: is429_def)
qed

theorem rate_limit_takes_precedence_witness:
  "handleAxiosError K0 (axiosError (Some 429)) ''contractCallRequest''
     (contractCallRequest K0 svc0 (always (Resolves (JObj [(''result'', JStr ''0x01'')]))))
     (JObj [(''to'', JStr ''0xabc'')]) s0 =
     Some (Inr (JStr ''0x01''),
           \<lparr>clock = 1,
            trace = [ConsoleLogRateLimit 10000, Wait 10000,
                     Request (Post MirrorNodeWeb3Client ''/api/v1/contracts/call''
                       (JObj [(''to'', JStr ''0xabc'')]))]\<rparr>)"
proof -
  have h: "response_status (axiosError (Some 429)) = Inr (JNum 429)"
    by (simp add: response_status_axiosError)
  have "contractCallRequest K0 svc0 (always (Resolves (JObj [(''result'', JStr ''0x01'')])))
          (JObj [(''to'', JStr ''0xabc'')])
          (s0\<lparr>trace := trace s0 @ [ConsoleLogRateLimit (RETRY_DELAY_MS K0), Wait (RETRY_DELAY_MS K0)]\<rparr>) =
        Some (Inr (JStr ''0x01''),
           \<lparr>clock = 1,
            trace = [ConsoleLogRateLimit 10000, Wait 10000,
                     Request (Post MirrorNodeWeb3Client ''/api/v1/contracts/call''
                       (JObj [(''to'', JStr ''0xabc'')]))]\<rparr>)"
    by (subst contractCallRequest.simps) (simp add: scanner_defs always_def s0_def K0_def)
  with rate_limit_takes_precedence [OF h, where K = K0 and retryName = "''contractCallRequest''"
       and param = "JObj [(''to'', JStr ''0xabc'')]" and s = s0
       and retryMethod = "contractCallRequest K0 svc0 (always (Resolves (JObj [(''result'', JStr ''0x01'')])))"]
  show ?thesis by simp
qed

subsection \<open>The result of a call request\<close>

text \<open>
  Claim C7. For every call descriptor: when the call-execution endpoint resolves with a
  body \<open>d\<close>, and reading \<^verbatim>\<open>d.result\<close> gives \<open>result\<close>, then \<^verbatim>\<open>contractCallRequest\<close> returns
  \<open>result\<close>, the inner field, and not the body \<open>d\<close>; it sends one request and writes nothing
  to the console.
\<close>

theorem call_request_returns_result_field:
  assumes "srv (clock s) (Post MirrorNodeWeb3Client (CONTRACT_CALL_ENDPOINT K) callData) = Resolves d"
    and "get_prop d ''result'' = Inr result"
  shows "contractCallRequest K svc srv callData s =
           Some (Inr result,
                 s\<lparr>clock := Suc (clock s),
                   trace := trace s @
                     [Request (Post MirrorNodeWeb3Client (CONTRACT_CALL_ENDPOINT K) callData)]\<rparr>)"
  using assms
    invoke_resolves [where srv = srv and s = s and K = K and svc = svc
      and op = "ContractCallRequest callData" and d = d]
  by (simp add: attempted_def)

theorem call_request_returns_result_field_witness:
  "contractCallRequest K0 svc0 (always (Resolves (JObj [(''result'', JStr ''0x01'')])))
     (JObj [(''to'', JStr ''0xabc'')]) s0 =
     Some (Inr (JStr ''0x01''),
           \<lparr>clock = 1,
            trace = [Request (Post MirrorNodeWeb3Client ''/api/v1/contracts/call''
                       (JObj [(''to'', JStr ''0xabc'')]))]\<rparr>)"
  using call_request_returns_result_field
    [where srv = "always (Resolves (JObj [(''result'', JStr ''0x01'')]))" and s = s0 and K = K0
       and svc = svc0 and callData = "JObj [(''to'', JStr ''0xabc'')]"
       and d = "JObj [(''result'', JStr ''0x01'')]" and result = "JStr ''0x01''"]
  by (simp add: always_def s0_def K0_def)

subsection \<open>The list request\<close>

text \<open>
  Claim C6. For a service with page-size bound \<open>L = scanContractLimit svc\<close>: the URL built
  for the list request carries a \<^verbatim>\<open>limit\<close> of at most \<open>L\<close>; its \<^verbatim>\<open>next\<close> parameter is
  omitted exactly when the cursor argument is absent, and otherwise is the cursor as given;
  and this URL is the one \<^verbatim>\<open>fetchContracts\<close> requests. The URL builder is the one modelled
  from the spec.
\<close>

theorem list_url_limit_and_cursor:
  "(\<exists>l. map_of (query (buildUrl K next (scanContractLimit svc))) ''limit'' = Some (JNum l) \<and>
        l \<le> int (scanContractLimit svc)) \<and>
   (map_of (query (buildUrl K next (scanContractLimit svc))) ''next'' = None) = (next = None) \<and>
   map_of (query (buildUrl K next (scanContractLimit svc))) ''next'' = map_option JStr next \<and>
   fetchContracts K svc (always (Resolves d)) next s =
     Some (Inr d,
           s\<lparr>clock := Suc (clock s),
             trace := trace s @
               [ConsoleLogFetching (buildUrl K next (scanContractLimit svc)),
                Request (Get MirrorNodeRestClient (buildUrl K next (scanContractLimit svc)))]\<rparr>)"
proof -
  have "fetchContracts K svc (always (Resolves d)) next s =
          Some (Inr d, attempted K svc (FetchContracts next) s)"
    using invoke_resolves [where srv = "always (Resolves d)" and s = s and K = K and svc = svc
        and op = "FetchContracts next" and d = d]
    by (simp add: always_def)
  then show ?thesis
    by (cases "next") (simp_all add: buildUrl_def attempted_def)
qed

subsection \<open>Which failures are logged\<close>

text \<open>
  Claim C1. On an HTTP 400 each operation returns null. On the call-execution path nothing
  is written to the console, as the claim says. On the list and detail paths the claim
  expects exactly one \<^verbatim>\<open>console.error\<close>; the code writes none: the events added are the
  request alone, preceded on the list path by the line announcing the URL.
\<close>

theorem bad_request_is_never_logged:
  "fetchContracts K svc (always (Rejects (axiosError (Some 400)))) next s =
     Some (Inr JNull,
           s\<lparr>clock := Suc (clock s),
             trace := trace s @
               [ConsoleLogFetching (buildUrl K next (scanContractLimit svc)),
                Request (Get MirrorNodeRestClient (buildUrl K next (scanContractLimit svc)))]\<rparr>) \<and>
   fetchContractObject K svc (always (Rejects (axiosError (Some 400)))) contractId s =
     Some (Inr JNull,
           s\<lparr>clock := Suc (clock s),
             trace := trace s @
               [Request (Get MirrorNodeRestClient
                  \<lparr>path = GET_CONTRACT_ENDPOINT K @ ''/'' @ contractId, query = []\<rparr>)]\<rparr>) \<and>
   contractCallRequest K svc (always (Rejects (axiosError (Some 400)))) callData s =
     Some (Inr JNull,
           s\<lparr>clock := Suc (clock s),
             trace := trace s @
               [Request (Post MirrorNodeWeb3Client (CONTRACT_CALL_ENDPOINT K) callData)]\<rparr>)"
  using
    invoke_rejects [where srv = "always (Rejects (axiosError (Some 400)))" and s = s and K = K
      and svc = svc and op = "FetchContracts next" and e = "axiosError (Some 400)" and st = "JNum 400"]
    invoke_rejects [where srv = "always (Rejects (axiosError (Some 400)))" and s = s and K = K
      and svc = svc and op = "FetchContractObject contractId" and e = "axiosError (Some 400)"
      and st = "JNum 400"]
    invoke_rejects [where srv = "always (Rejects (axiosError (Some 400)))" and s = s and K = K
      and svc = svc and op = "ContractCallRequest callData" and e = "axiosError (Some 400)"
      and st = "JNum 400"]
  by (simp add: always_def response_status_axiosError attempted_def)

text \<open>
  Claim C3. A network error or an HTTP 500 on \<^verbatim>\<open>contractCallRequest\<close> returns null and
  writes nothing to the console, while the same network error on \<^verbatim>\<open>fetchContractObject\<close>
  is written with \<^verbatim>\<open>console.error\<close>: the logging of failures other than 429 and 400 is not
  the same across the three operations, and on the call path they are not logged at all.
\<close>

theorem call_request_failures_are_not_logged:
  "contractCallRequest K svc (always (Rejects (axiosError None))) callData s =
     Some (Inr JNull,
           s\<lparr>clock := Suc (clock s),
             trace := trace s @
               [Request (Post MirrorNodeWeb3Client (CONTRACT_CALL_ENDPOINT K) callData)]\<rparr>) \<and>
   contractCallRequest K svc (always (Rejects (axiosError (Some 500)))) callData s =
     Some (Inr JNull,
           s\<lparr>clock := Suc (clock s),
             trace := trace s @
               [Request (Post MirrorNodeWeb3Client (CONTRACT_CALL_ENDPOINT K) callData)]\<rparr>) \<and>
   fetchContractObject K svc (always (Rejects (axiosError None))) contractId s =
     Some (Inr JNull,
           s\<lparr>clock := Suc (clock s),
             trace := trace s @
               [Request (Get MirrorNodeRestClient
                  \<lparr>path = GET_CONTRACT_ENDPOINT K @ ''/'' @ contractId, query = []\<rparr>),
                ConsoleError (axiosError None)]\<rparr>)"
  using
    invoke_rejects [where srv = "always (Rejects (axiosError None))" and s = s and K = K
      and svc = svc and op = "ContractCallRequest callData" and e = "axiosError None"
      and st = JUndefined]
    invoke_rejects [where srv = "always (Rejects (axiosError (Some 500)))" and s = s and K = K
      and svc = svc and op = "ContractCallRequest callData" and e = "axiosError (Some 500)"
      and st = "JNum 500"]
    invoke_rejects [where srv = "always (Rejects (axiosError None))" and s = s and K = K
      and svc = svc and op = "FetchContractObject contractId" and e = "axiosError None"
      and st = JUndefined]
  by (simp add: always_def response_status_axiosError attempted_def emit_def)

section \<open>Properties of the wallet API\<close>

text \<open>
  Claim C10. When no wallet object is injected, that is when \<^verbatim>\<open>window\<close> is not defined
  or has no \<^verbatim>\<open>ethereum\<close> property, \<^verbatim>\<open>getWalletProvider\<close> returns \<^verbatim>\<open>{ err: '!HEDERA' }\<close>. It
  does not throw and does not construct a provider: the trace is unchanged, whatever the
  constructor would do.
\<close>

theorem no_wallet_object_yields_error:
  assumes "window = None \<or> (\<exists>w. window = Some w \<and> map_of w ''ethereum'' = None)"
  shows "getWalletProvider BrowserProvider window tr = (Inr (Err (JStr ''!HEDERA'')), tr)"
  using assms by (auto simp: getWalletProvider_def getWalletObject_def)

theorem no_wallet_object_yields_error_witness:
  "getWalletProvider throwingConstructor None [] = (Inr (Err (JStr ''!HEDERA'')), []) \<and>
   getWalletProvider throwingConstructor (Some [(''name'', JStr ''main'')]) [] =
     (Inr (Err (JStr ''!HEDERA'')), [])"
  using no_wallet_object_yields_error [where window = None and tr = "[]"
          and BrowserProvider = throwingConstructor]
        no_wallet_object_yields_error [where window = "Some [(''name'', JStr ''main'')]" and tr = "[]"
          and BrowserProvider = throwingConstructor]
  by simp

text \<open>
  Claim C8. \<^verbatim>\<open>switchToHederaTestnet\<close> throws past its own boundary when the provider
  rejects the switch request with an error that has no \<^verbatim>\<open>error\<close> property: reading
  \<^verbatim>\<open>error.error.code\<close> in the \<^verbatim>\<open>catch\<close> block raises a TypeError that nothing catches.
\<close>

theorem switchToHederaTestnet_throws:
  "switchToHederaTestnet testnet (rejecting (JObj [(''code'', JStr ''ACTION_REJECTED'')])) tr =
     (Inl TypeError, tr @ [Send ''wallet_switchEthereumChain'' [JObj [(''chainId'', JStr ''0x128'')]]])"
  by (simp add: switchToHederaTestnet_def rejecting_def)

text \<open>The other four operations return a result for every answer of the provider.\<close>

lemma other_wallet_operations_never_throw:
  "\<exists>r. fst (getBalance walletProvider account tr) = Inr r"
  "\<exists>r. fst (getCurrentChainId walletProvider tr) = Inr r"
  "\<exists>r. fst (requestAccount walletProvider tr) = Inr r"
  "\<exists>r. fst (addEthereumChain testnet walletProvider tr) = Inr r"
  by (simp_all add: getBalance_def getCurrentChainId_def requestAccount_def addEthereumChain_def
      Let_def split: send_outcome.splits)

end
